theory Spec2Isabelle
  imports Complex_Main "HOL-Library.Sublist"
begin

chapter \<open>Bench-press challenge application: progress model, plan generator, training cycle\<close>

text \<open>
  The repository holds two versions of one Streamlit application. \<^verbatim>\<open>FINAL_s.py\<close> asks an
  external chat-completion service for the weekly plan and keeps the four-week training cycle
  in \<^verbatim>\<open>st.session_state\<close>; the older version builds the weekly plan with a fixed formula.
  Both share the progress model (\<^verbatim>\<open>estimate_weeks_to_target\<close> and the ideal pace curve).

  Conventions of the embedding.
  \<^item> A Python \<^verbatim>\<open>float\<close> is an exact rational (\<^typ>\<open>rat\<close>): the arithmetic of the source is
    modelled without binary rounding. A Python \<^verbatim>\<open>int\<close> is \<^typ>\<open>int\<close>.
  \<^item> A \<^verbatim>\<open>date\<close> is its proleptic day number (\<^typ>\<open>int\<close>); adding \<^verbatim>\<open>timedelta(days=i)\<close> is
    adding \<open>i\<close>. The bounds of Python's \<^verbatim>\<open>date\<close> type (years 1 to 9999) are not modelled.
  \<^item> A Python \<^verbatim>\<open>str\<close> is a \<^typ>\<open>string\<close> holding its UTF-8 bytes; the Japanese literals of the
    source are written byte by byte.
  \<^item> A \<^verbatim>\<open>dict\<close> is a map; \<^verbatim>\<open>d.get(k, {})\<close> is \<open>dict_get\<close> below.
\<close>

section \<open>Python primitives\<close>

text \<open>\<^verbatim>\<open>int(x)\<close> on a float truncates towards zero.\<close>

definition py_int :: "rat \<Rightarrow> int" where
  "py_int x = (if 0 \<le> x then \<lfloor>x\<rfloor> else \<lceil>x\<rceil>)"


section \<open>Progress model\<close>

definition TARGET_1RM :: int where
  "TARGET_1RM = 100"

text \<open>
  The local \<^verbatim>\<open>weekly_gain\<close> of \<^verbatim>\<open>estimate_weeks_to_target\<close>:
  \<^verbatim>\<open>max(0.3, base_gain + freq_bonus)\<close> with \<^verbatim>\<open>base_gain = 0.6\<close> and
  \<^verbatim>\<open>freq_bonus = (sessions_per_week - 3) * 0.15\<close>.
\<close>

definition weekly_gain :: "int \<Rightarrow> rat" where
  "weekly_gain sessions_per_week =
     (let base_gain = 0.6;
          freq_bonus = of_int (sessions_per_week - 3) * 0.15
      in max 0.3 (base_gain + freq_bonus))"

definition estimate_weeks_to_target :: "rat \<Rightarrow> int \<Rightarrow> int" where
  "estimate_weeks_to_target current_1rm sessions_per_week =
     (if of_int TARGET_1RM \<le> current_1rm then 0
      else
        let need_kg = of_int TARGET_1RM - current_1rm;
            weeks = py_int (need_kg / weekly_gain sessions_per_week + 0.999)
        in max 1 weeks)"




section \<open>Deterministic plan generator\<close>






subsection \<open>The string literals of the catalogue\<close>

































section \<open>Training cycle: data\<close>

text \<open>
  The data of \<^verbatim>\<open>FINAL_s.py\<close>. A weekly plan is the list the plan collaborator returns under
  the key \<^verbatim>\<open>weekly_plan\<close>: one dictionary per training day with the keys \<^verbatim>\<open>day\<close> and
  \<^verbatim>\<open>menu\<close>, each menu entry with the keys \<^verbatim>\<open>name\<close>, \<^verbatim>\<open>sets\<close>, \<^verbatim>\<open>reps\<close>, \<^verbatim>\<open>weight\<close> and,
  optionally, \<^verbatim>\<open>is_max\<close>. The source reads the flag with \<^verbatim>\<open>item.get("is_max", False)\<close>, so that
  an absent key counts as false.
\<close>

record menu_item =
  name :: string
  sets :: int
  reps :: int
  weight :: rat
  is_max :: "bool option"

definition item_is_max :: "menu_item \<Rightarrow> bool" where
  "item_is_max item = (case is_max item of None \<Rightarrow> False | Some b \<Rightarrow> b)"

record day_plan =
  day :: string
  menu :: "menu_item list"

type_synonym week_plan = "day_plan list"

text \<open>
  A saved record: the dictionary the save handler stores under
  \<^verbatim>\<open>records[week][day][name]\<close>. Its numbers are integers (\<^verbatim>\<open>int(w_input)\<close> and so on).
\<close>

record train_record =
  rec_weight :: int
  rec_reps :: int
  rec_sets :: int
  rec_note :: string
  rec_is_max :: bool

type_synonym day_records = "string \<rightharpoonup> train_record"
type_synonym week_records = "string \<rightharpoonup> day_records"
type_synonym all_records = "int \<rightharpoonup> week_records"

text \<open>\<^verbatim>\<open>d.get(k, {})\<close> for a dictionary of dictionaries.\<close>

definition dict_get :: "('k \<rightharpoonup> ('j \<rightharpoonup> 'v)) \<Rightarrow> 'k \<Rightarrow> ('j \<rightharpoonup> 'v)" where
  "dict_get d k = (case d k of None \<Rightarrow> Map.empty | Some v \<Rightarrow> v)"

text \<open>\<^verbatim>\<open>d.get(k, False)\<close> for a dictionary of booleans.\<close>

definition flag_get :: "('k \<rightharpoonup> bool) \<Rightarrow> 'k \<Rightarrow> bool" where
  "flag_get d k = (case d k of None \<Rightarrow> False | Some b \<Rightarrow> b)"

text \<open>\<^verbatim>\<open>xs[i]\<close>: a negative index counts from the end, an index out of range raises.\<close>

definition py_index :: "'a list \<Rightarrow> int \<Rightarrow> 'a option" where
  "py_index xs i =
     (let n = int (length xs); j = (if i < 0 then n + i else i)
      in if 0 \<le> j \<and> j < n then Some (xs ! nat j) else None)"

record initial_info =
  height :: rat
  body_weight :: rat
  current_bp :: rat
  goal_bp :: int
  freq :: int
  weekdays :: "string list"

record profile =
  profile_height :: rat
  profile_weight :: rat
  profile_current_1rm :: rat
  profile_sessions_per_week :: int
  profile_target_weeks :: int
  profile_target_date :: int
  profile_start_date :: int

record training_log =
  log_date :: int
  log_current_1rm :: rat
  log_note :: string

text \<open>
  The part of \<^verbatim>\<open>st.session_state\<close> the training cycle and the progress page use. An empty
  \<^verbatim>\<open>profile\<close> dictionary and an \<^verbatim>\<open>initial_info\<close> of \<^verbatim>\<open>None\<close> are \<open>None\<close>. The protein counters,
  \<^verbatim>\<open>celebrated_100kg\<close> and \<^verbatim>\<open>expanded_status\<close> are left out: no function modelled here
  reads them.
\<close>

record state =
  profile :: "profile option"
  training_logs :: "training_log list"
  initial_info :: "initial_info option"
  weekly_plan :: "week_plan list"
  records :: all_records
  current_week :: int
  training_started :: bool
  max_test_result :: rat
  goal_achieved_pending :: bool
  max_registered_not_achieved :: bool
  day_review_done :: "int \<rightharpoonup> (string \<rightharpoonup> bool)"
  last_review :: "int \<rightharpoonup> (string \<rightharpoonup> string)"
  next_week_config_pending :: bool

datatype py_error = TypeError | IndexError

text \<open>
  The text-generation collaborator. \<^verbatim>\<open>plan_reply\<close> stands for the chat completion requested by
  \<^verbatim>\<open>generate_ai_week_plan\<close> followed by \<^verbatim>\<open>json.loads\<close> and \<^verbatim>\<open>.get("weekly_plan", [])\<close>: it is
  \<open>None\<close> when the call or the parsing raises. \<^verbatim>\<open>review_reply\<close> stands for the completion
  requested by \<^verbatim>\<open>generate_ai_daily_review\<close>, \<open>None\<close> when the call raises. Both depend on
  what the prompt is built from.
\<close>

record client =
  plan_reply :: "int \<Rightarrow> string list \<Rightarrow> initial_info \<Rightarrow> all_records \<Rightarrow> rat \<Rightarrow> week_plan option"
  review_reply :: "int \<Rightarrow> string \<Rightarrow> initial_info \<Rightarrow> all_records \<Rightarrow> rat \<Rightarrow> string option"

subsection \<open>The string literals of the training cycle\<close>

text \<open>The message \<^verbatim>\<open>"..."\<close> returned with \<^verbatim>\<open>True\<close> by both completeness checks (``done'').\<close>

definition msg_done :: string where
  "msg_done =
     [CHR 0xE5, CHR 0xAE, CHR 0x8C, CHR 0xE4, CHR 0xBA, CHR 0x86]"

text \<open>The opening bracket of the message \<^verbatim>\<open>f"[{day}]{name}"\<close> naming a missing record (U+3010).\<close>

definition bracket_open :: string where
  "bracket_open =
     [CHR 0xE3, CHR 0x80, CHR 0x90]"

text \<open>The closing bracket of that message (U+3011).\<close>

definition bracket_close :: string where
  "bracket_close =
     [CHR 0xE3, CHR 0x80, CHR 0x91]"

text \<open>The message of \<^verbatim>\<open>check_all_records_saved_for_day\<close> when no day plan has the day (``the day is not in the menu'').\<close>

definition msg_day_not_found :: string where
  "msg_day_not_found =
     [CHR 0xE8, CHR 0xA9, CHR 0xB2, CHR 0xE5, CHR 0xBD, CHR 0x93, CHR 0xE6, CHR 0x97, CHR 0xA5,
      CHR 0xE3, CHR 0x81, CHR 0x8C, CHR 0xE3, CHR 0x83, CHR 0xA1, CHR 0xE3, CHR 0x83, CHR 0x8B,
      CHR 0xE3, CHR 0x83, CHR 0xA5, CHR 0xE3, CHR 0x83, CHR 0xBC, CHR 0xE3, CHR 0x81, CHR 0xAB,
      CHR 0xE8, CHR 0xA6, CHR 0x8B, CHR 0xE3, CHR 0x81, CHR 0xA4, CHR 0xE3, CHR 0x81, CHR 0x8B,
      CHR 0xE3, CHR 0x82, CHR 0x8A, CHR 0xE3, CHR 0x81, CHR 0xBE, CHR 0xE3, CHR 0x81, CHR 0x9B,
      CHR 0xE3, CHR 0x82, CHR 0x93]"

text \<open>The text \<^verbatim>\<open>generate_ai_daily_review\<close> returns when there is no client.\<close>

definition msg_review_disabled :: string where
  "msg_review_disabled =
     ''AI'' @ [CHR 0xE6, CHR 0xA9, CHR 0x9F, CHR 0xE8, CHR 0x83, CHR 0xBD, CHR 0xE3, CHR 0x81,
      CHR 0x8C, CHR 0xE7, CHR 0x84, CHR 0xA1, CHR 0xE5, CHR 0x8A, CHR 0xB9, CHR 0xE3, CHR 0x81,
      CHR 0xAE, CHR 0xE3, CHR 0x81, CHR 0x9F, CHR 0xE3, CHR 0x82, CHR 0x81, CHR 0xE3, CHR 0x83,
      CHR 0xAC, CHR 0xE3, CHR 0x83, CHR 0x93, CHR 0xE3, CHR 0x83, CHR 0xA5, CHR 0xE3, CHR 0x83,
      CHR 0xBC, CHR 0xE3, CHR 0x81, CHR 0xA7, CHR 0xE3, CHR 0x81, CHR 0x8D, CHR 0xE3, CHR 0x81,
      CHR 0xBE, CHR 0xE3, CHR 0x81, CHR 0x9B, CHR 0xE3, CHR 0x82, CHR 0x93, CHR 0xE3, CHR 0x80,
      CHR 0x82]"

text \<open>The text \<^verbatim>\<open>generate_ai_daily_review\<close> returns when the call raises.\<close>

definition msg_review_failed :: string where
  "msg_review_failed =
     [CHR 0xE3, CHR 0x83, CHR 0xAC, CHR 0xE3, CHR 0x83, CHR 0x93, CHR 0xE3, CHR 0x83, CHR 0xA5,
      CHR 0xE3, CHR 0x83, CHR 0xBC, CHR 0xE7, CHR 0x94, CHR 0x9F, CHR 0xE6, CHR 0x88, CHR 0x90,
      CHR 0xE3, CHR 0x81, CHR 0xAB, CHR 0xE5, CHR 0xA4, CHR 0xB1, CHR 0xE6, CHR 0x95, CHR 0x97,
      CHR 0xE3, CHR 0x81, CHR 0x97, CHR 0xE3, CHR 0x81, CHR 0xBE, CHR 0xE3, CHR 0x81, CHR 0x97,
      CHR 0xE3, CHR 0x81, CHR 0x9F, CHR 0xE3, CHR 0x80, CHR 0x82]"

text \<open>The note logged by \<^verbatim>\<open>page_initial_settings\<close> (``initial settings'').\<close>

definition note_initial :: string where
  "note_initial =
     [CHR 0xE5, CHR 0x88, CHR 0x9D, CHR 0xE6, CHR 0x9C, CHR 0x9F, CHR 0xE8, CHR 0xA8, CHR 0xAD,
      CHR 0xE5, CHR 0xAE, CHR 0x9A]"

text \<open>The note logged when a max test is registered (``updated by max test'').\<close>

definition note_max_test :: string where
  "note_max_test =
     ''MAX'' @ [CHR 0xE3, CHR 0x83, CHR 0x86, CHR 0xE3, CHR 0x82, CHR 0xB9, CHR 0xE3, CHR 0x83,
      CHR 0x88, CHR 0xE3, CHR 0x81, CHR 0xA7, CHR 0xE6, CHR 0x9B, CHR 0xB4, CHR 0xE6, CHR 0x96,
      CHR 0xB0]"

definition msg_missing :: "string \<Rightarrow> string \<Rightarrow> string" where
  "msg_missing d n = bracket_open @ d @ bracket_close @ n"

section \<open>Training cycle: operations\<close>

definition log_training_snapshot :: "string \<Rightarrow> int option \<Rightarrow> int \<Rightarrow> state \<Rightarrow> state" where
  "log_training_snapshot note log_date_arg today st =
     (case profile st of
        None \<Rightarrow> st
      | Some p \<Rightarrow>
          let d = (case log_date_arg of None \<Rightarrow> today | Some ld \<Rightarrow> ld);
              log = \<lparr>log_date = d, log_current_1rm = profile_current_1rm p, log_note = note\<rparr>
          in st\<lparr>training_logs := training_logs st @ [log]\<rparr>)"

definition generate_ai_week_plan ::
  "int \<Rightarrow> string list \<Rightarrow> initial_info \<Rightarrow> all_records \<Rightarrow> rat \<Rightarrow> client option \<Rightarrow> week_plan option" where
  "generate_ai_week_plan week_num wds info recs max_bp cl =
     (case cl of
        None \<Rightarrow> None
      | Some c \<Rightarrow> plan_reply c week_num wds info recs max_bp)"

definition generate_ai_daily_review ::
  "int \<Rightarrow> string \<Rightarrow> initial_info \<Rightarrow> all_records \<Rightarrow> rat \<Rightarrow> client option \<Rightarrow> string" where
  "generate_ai_daily_review week_num day_of_week info recs max_result cl =
     (case cl of
        None \<Rightarrow> msg_review_disabled
      | Some c \<Rightarrow>
          (case review_reply c week_num day_of_week info recs max_result of
             None \<Rightarrow> msg_review_failed
           | Some text \<Rightarrow> text))"

text \<open>
  \<^verbatim>\<open>check_all_records_saved_for_day\<close>. The inner loop returns the name of the first item of
  the menu without a record; the outer loop stops at the first day plan with the day.
\<close>

fun first_missing :: "day_records \<Rightarrow> menu_item list \<Rightarrow> string option" where
  "first_missing recorded_data [] = None"
| "first_missing recorded_data (item # items) =
     (if recorded_data (name item) = None then Some (name item)
      else first_missing recorded_data items)"

fun check_day_loop :: "string \<Rightarrow> day_records \<Rightarrow> week_plan \<Rightarrow> bool \<times> string" where
  "check_day_loop d recorded_data [] = (False, msg_day_not_found)"
| "check_day_loop d recorded_data (dp # dps) =
     (if day dp = d then
        (case first_missing recorded_data (menu dp) of
           Some n \<Rightarrow> (False, msg_missing d n)
         | None \<Rightarrow> (True, msg_done))
      else check_day_loop d recorded_data dps)"

definition check_all_records_saved_for_day ::
  "int \<Rightarrow> string \<Rightarrow> week_plan \<Rightarrow> all_records \<Rightarrow> bool \<times> string" where
  "check_all_records_saved_for_day week_num d wp recs =
     check_day_loop d (dict_get (dict_get recs week_num) d) wp"

text \<open>
  \<^verbatim>\<open>check_all_records_saved_for_week\<close>. The two nested loops carry the pair
  \<^verbatim>\<open>(max_measurement_done, max_weight)\<close> and leave with the message of the first item without
  a record (\<open>Inl\<close>); after the loops, on week 4 with a max measurement, the function writes
  \<^verbatim>\<open>max_test_result\<close> and the two pending flags of the session state. Reading
  \<^verbatim>\<open>initial_info["goal_bp"]\<close> raises \<^verbatim>\<open>TypeError\<close> when \<^verbatim>\<open>initial_info\<close> is \<^verbatim>\<open>None\<close>, after
  \<^verbatim>\<open>max_test_result\<close> has been written.
\<close>

fun week_items_loop ::
  "int \<Rightarrow> string \<Rightarrow> week_records \<Rightarrow> menu_item list \<Rightarrow> bool \<times> int \<Rightarrow> string + bool \<times> int" where
  "week_items_loop week_num d recorded_data [] acc = Inr acc"
| "week_items_loop week_num d recorded_data (item # items) acc =
     (case recorded_data d of
        None \<Rightarrow> Inl (msg_missing d (name item))
      | Some day_recs \<Rightarrow>
          (case day_recs (name item) of
             None \<Rightarrow> Inl (msg_missing d (name item))
           | Some r \<Rightarrow>
               week_items_loop week_num d recorded_data items
                 (if week_num = 4 \<and> item_is_max item then (True, rec_weight r) else acc)))"

fun week_days_loop ::
  "int \<Rightarrow> week_records \<Rightarrow> week_plan \<Rightarrow> bool \<times> int \<Rightarrow> string + bool \<times> int" where
  "week_days_loop week_num recorded_data [] acc = Inr acc"
| "week_days_loop week_num recorded_data (dp # dps) acc =
     (case week_items_loop week_num (day dp) recorded_data (menu dp) acc of
        Inl m \<Rightarrow> Inl m
      | Inr acc' \<Rightarrow> week_days_loop week_num recorded_data dps acc')"

definition check_all_records_saved_for_week ::
  "int \<Rightarrow> week_plan \<Rightarrow> all_records \<Rightarrow> state \<Rightarrow> (py_error + bool \<times> string) \<times> state" where
  "check_all_records_saved_for_week week_num wp recs st =
     (case week_days_loop week_num (dict_get recs week_num) wp (False, 0) of
        Inl m \<Rightarrow> (Inr (False, m), st)
      | Inr (max_measurement_done, max_weight) \<Rightarrow>
          if week_num = 4 \<and> max_measurement_done then
            (let st1 = st\<lparr>max_test_result := of_int max_weight\<rparr>
             in case initial_info st1 of
                  None \<Rightarrow> (Inl TypeError, st1)
                | Some info \<Rightarrow>
                    if of_int (goal_bp info) \<le> max_test_result st1 then
                      (Inr (True, msg_done),
                       st1\<lparr>goal_achieved_pending := True, max_registered_not_achieved := False\<rparr>)
                    else
                      (Inr (True, msg_done),
                       st1\<lparr>goal_achieved_pending := False, max_registered_not_achieved := True\<rparr>))
          else (Inr (True, msg_done), st))"

section \<open>Training cycle: the pages\<close>

text \<open>
  One run of the script handles at most one widget event. The inputs of the widgets travel
  with the event; a widget that the run does not render, or renders disabled, cannot be the
  source of an event, and the run then behaves as a run without a click.
\<close>

record save_input =
  save_day :: string
  save_name :: string
  w_input :: int
  r_input :: int
  s_input :: int
  note_input :: string

record profile_input =
  in_height :: rat
  in_weight :: rat
  in_current_1rm :: rat
  in_weekdays :: "string list"

datatype event =
    NoClick
  | SubmitProfile profile_input
  | SubmitNextWeekConfig int "string list"
  | ClickStartTraining
  | ClickSave save_input
  | ClickFinishDay string
  | ClickRestartNewGoal int
  | ClickRestartSameGoal
  | ClickNextWeekConfig
  | SubmitMaxTest int rat

text \<open>
  How a page ends: it returns, it calls \<^verbatim>\<open>st.rerun()\<close> (which ends the whole run), or an
  exception escapes. In each case the session state keeps the writes made so far.
\<close>

datatype outcome = Returned | Rerun | Raised py_error

text \<open>
  The body of \<^verbatim>\<open>if save_btn:\<close> in \<^verbatim>\<open>page_training_week\<close>, up to the assignment of the record.
\<close>

definition save_record ::
  "int \<Rightarrow> string \<Rightarrow> menu_item \<Rightarrow> save_input \<Rightarrow> state \<Rightarrow> state" where
  "save_record week_number d item inp st =
     (let week_recs = dict_get (records st) week_number;
          day_recs = dict_get week_recs d;
          final_reps = (if week_number = 4 \<and> item_is_max item then 1 else r_input inp);
          final_sets = (if week_number = 4 \<and> item_is_max item then 1 else s_input inp);
          r = \<lparr>rec_weight = w_input inp, rec_reps = final_reps, rec_sets = final_sets,
               rec_note = note_input inp, rec_is_max = item_is_max item\<rparr>
      in st\<lparr>records := (records st)(week_number \<mapsto> week_recs(d \<mapsto> day_recs(name item \<mapsto> r)))\<rparr>)"

text \<open>The two \<^verbatim>\<open>setdefault\<close> assignments of the day-review button.\<close>

definition finish_day :: "int \<Rightarrow> string \<Rightarrow> string \<Rightarrow> state \<Rightarrow> state" where
  "finish_day week_number d review_text st =
     st\<lparr>last_review :=
          (last_review st)(week_number \<mapsto> (dict_get (last_review st) week_number)(d \<mapsto> review_text)),
        day_review_done :=
          (day_review_done st)(week_number \<mapsto> (dict_get (day_review_done st) week_number)(d \<mapsto> True))\<rparr>"

text \<open>
  The loop over the menu of one day: the save button of an item fires when the event names
  the day and the item and the button is not disabled.
\<close>

fun items_loop ::
  "event \<Rightarrow> int \<Rightarrow> string \<Rightarrow> bool \<Rightarrow> menu_item list \<Rightarrow> state \<Rightarrow> state option" where
  "items_loop ev week_number d is_disabled [] st = None"
| "items_loop ev week_number d is_disabled (item # items) st =
     (case ev of
        ClickSave inp \<Rightarrow>
          if save_day inp = d \<and> save_name inp = name item \<and> \<not> is_disabled
          then Some (save_record week_number d item inp st)
          else items_loop ev week_number d is_disabled items st
      | _ \<Rightarrow> items_loop ev week_number d is_disabled items st)"

text \<open>
  The loop over the day plans of the current week. It yields the state written by the handler
  that fired (the run then ends with \<^verbatim>\<open>st.rerun()\<close>), or \<open>None\<close> when no handler fired.
\<close>

fun days_loop ::
  "client \<Rightarrow> initial_info \<Rightarrow> event \<Rightarrow> int \<Rightarrow> week_plan \<Rightarrow> day_plan list \<Rightarrow> state \<Rightarrow> state option" where
  "days_loop c info ev week_number wp [] st = None"
| "days_loop c info ev week_number wp (dp # dps) st =
     (let d = day dp;
          is_day_reviewed = flag_get (dict_get (day_review_done st) week_number) d;
          is_day_fully_saved = fst (check_all_records_saved_for_day week_number d wp (records st))
      in case items_loop ev week_number d is_day_reviewed (menu dp) st of
           Some st' \<Rightarrow> Some st'
         | None \<Rightarrow>
             if is_day_fully_saved \<and> \<not> is_day_reviewed \<and> ev = ClickFinishDay d then
               Some (finish_day week_number d
                       (generate_ai_daily_review week_number d info (records st)
                          (max_test_result st) (Some c))
                       st)
             else days_loop c info ev week_number wp dps st)"

text \<open>
  The week-completion part of \<^verbatim>\<open>page_training_week\<close>, after the loop over the days: the call of
  \<^verbatim>\<open>check_all_records_saved_for_week\<close> and the buttons that end a week or a cycle. On week 4
  the page reads \<^verbatim>\<open>initial_info["goal_bp"]\<close> before it draws the buttons.
\<close>

definition week_footer :: "event \<Rightarrow> int \<Rightarrow> week_plan \<Rightarrow> state \<Rightarrow> outcome \<times> state" where
  "week_footer ev week_number wp st =
     (case check_all_records_saved_for_week week_number wp (records st) st of
        (Inl e, st1) \<Rightarrow> (Raised e, st1)
      | (Inr (is_week_fully_recorded, m), st1) \<Rightarrow>
          let all_days_reviewed =
                list_all (\<lambda>dp. flag_get (dict_get (day_review_done st1) week_number) (day dp)) wp
          in if is_week_fully_recorded \<and> all_days_reviewed then
               if week_number = 4 then
                 (case initial_info st1 of
                    None \<Rightarrow> (Raised TypeError, st1)
                  | Some info \<Rightarrow>
                      if goal_achieved_pending st1 then
                        (case ev of
                           ClickRestartNewGoal new_goal \<Rightarrow>
                             (Rerun,
                              st1\<lparr>initial_info := Some (info\<lparr>goal_bp := new_goal\<rparr>),
                                  current_week := 0, next_week_config_pending := True\<rparr>)
                         | _ \<Rightarrow> (Returned, st1))
                      else if max_registered_not_achieved st1 then
                        (case ev of
                           ClickRestartSameGoal \<Rightarrow>
                             (Rerun, st1\<lparr>current_week := 0, next_week_config_pending := True\<rparr>)
                         | _ \<Rightarrow> (Returned, st1))
                      else (Returned, st1))
               else if week_number < 4 then
                 (case ev of
                    ClickNextWeekConfig \<Rightarrow> (Rerun, st1\<lparr>next_week_config_pending := True\<rparr>)
                  | _ \<Rightarrow> (Returned, st1))
               else (Returned, st1)
             else (Returned, st1))"

text \<open>
  The handler of the next-week form (\<^verbatim>\<open>if submit_config:\<close>). The configuration is written to
  \<^verbatim>\<open>initial_info\<close> before the plan is requested; an absent or empty plan is falsy and takes
  the \<^verbatim>\<open>else\<close> branch.
\<close>

definition next_week_config_submit ::
  "client \<Rightarrow> initial_info \<Rightarrow> int \<Rightarrow> string list \<Rightarrow> state \<Rightarrow> outcome \<times> state" where
  "next_week_config_submit c info freq_next weekdays_next st =
     (let is_cycle_restart = (current_week st = 0);
          next_week_num = (if is_cycle_restart then 1 else current_week st + 1)
      in if int (length weekdays_next) \<noteq> freq_next then (Returned, st)
         else
           let info1 = info\<lparr>freq := freq_next, weekdays := weekdays_next\<rparr>;
               st1 = st\<lparr>initial_info := Some info1\<rparr>;
               max_to_use = max_test_result st1;
               new_plan = generate_ai_week_plan next_week_num weekdays_next info1 (records st1)
                            max_to_use (Some c)
           in case new_plan of
                None \<Rightarrow> (Returned, st1)
              | Some [] \<Rightarrow> (Returned, st1)
              | Some p \<Rightarrow>
                  (Rerun,
                   st1\<lparr>current_week := next_week_num,
                       weekly_plan := (if is_cycle_restart then [p] else weekly_plan st1 @ [p]),
                       records := (if is_cycle_restart then Map.empty else records st1),
                       day_review_done := Map.empty,
                       last_review := Map.empty,
                       next_week_config_pending := False,
                       training_started := False,
                       goal_achieved_pending := False,
                       max_registered_not_achieved := False\<rparr>))"

definition page_training_week :: "client option \<Rightarrow> event \<Rightarrow> state \<Rightarrow> outcome \<times> state" where
  "page_training_week cl ev st =
     (case initial_info st of
        None \<Rightarrow> (Returned, st)
      | Some info \<Rightarrow>
          (case cl of
             None \<Rightarrow> (Returned, st)
           | Some c \<Rightarrow>
               if next_week_config_pending st then
                 (case ev of
                    SubmitNextWeekConfig freq_next weekdays_next \<Rightarrow>
                      next_week_config_submit c info freq_next weekdays_next st
                  | _ \<Rightarrow> (Returned, st))
               else if \<not> training_started st then
                 (case ev of
                    ClickStartTraining \<Rightarrow> (Rerun, st\<lparr>training_started := True\<rparr>)
                  | _ \<Rightarrow> (Returned, st))
               else
                 let week_idx = current_week st - 1;
                     week_number = current_week st
                 in if int (length (weekly_plan st)) \<le> week_idx then
                      (Returned, st\<lparr>training_started := False\<rparr>)
                    else
                      (case py_index (weekly_plan st) week_idx of
                         None \<Rightarrow> (Raised IndexError, st)
                       | Some wp \<Rightarrow>
                           (case days_loop c info ev week_number wp wp st of
                              Some st' \<Rightarrow> (Rerun, st')
                            | None \<Rightarrow> week_footer ev week_number wp st))))"

text \<open>
  The submit handler of \<^verbatim>\<open>page_initial_settings\<close>. \<^verbatim>\<open>today\<close> is \<^verbatim>\<open>date.today()\<close>; the target
  date is \<^verbatim>\<open>today + timedelta(weeks=weeks)\<close>.
\<close>

definition page_initial_settings :: "client option \<Rightarrow> int \<Rightarrow> event \<Rightarrow> state \<Rightarrow> state" where
  "page_initial_settings cl today ev st =
     (case ev of
        SubmitProfile inp \<Rightarrow>
          if in_weekdays inp = [] then st
          else
            let sessions_per_week = int (length (in_weekdays inp));
                weeks = estimate_weeks_to_target (in_current_1rm inp) sessions_per_week;
                target_date = today + 7 * weeks;
                st1 = st\<lparr>profile := Some \<lparr>profile_height = in_height inp,
                                            profile_weight = in_weight inp,
                                            profile_current_1rm = in_current_1rm inp,
                                            profile_sessions_per_week = sessions_per_week,
                                            profile_target_weeks = weeks,
                                            profile_target_date = target_date,
                                            profile_start_date = today\<rparr>\<rparr>;
                st2 = log_training_snapshot note_initial (Some today) today st1;
                info = \<lparr>height = in_height inp, body_weight = in_weight inp,
                        current_bp = in_current_1rm inp, goal_bp = TARGET_1RM,
                        freq = sessions_per_week, weekdays = in_weekdays inp\<rparr>;
                st3 = st2\<lparr>initial_info := Some info, max_test_result := in_current_1rm inp\<rparr>;
                week1_plan = generate_ai_week_plan 1 (in_weekdays inp) info (records st3)
                               (in_current_1rm inp) cl
            in case week1_plan of
                 None \<Rightarrow> st3
               | Some [] \<Rightarrow> st3
               | Some p \<Rightarrow>
                   st3\<lparr>weekly_plan := [p],
                       records := Map.empty,
                       current_week := 1,
                       training_started := False,
                       goal_achieved_pending := False,
                       max_registered_not_achieved := False,
                       day_review_done := Map.empty,
                       last_review := Map.empty,
                       next_week_config_pending := False\<rparr>
      | _ \<Rightarrow> st)"

text \<open>The max-test form of \<^verbatim>\<open>page_progress_and_roadmap\<close>.\<close>

definition page_progress_and_roadmap :: "int \<Rightarrow> event \<Rightarrow> state \<Rightarrow> outcome \<times> state" where
  "page_progress_and_roadmap today ev st =
     (case profile st of
        None \<Rightarrow> (Returned, st)
      | Some p \<Rightarrow>
          (case ev of
             SubmitMaxTest test_date test_1rm \<Rightarrow>
               if test_1rm \<le> 0 then (Returned, st)
               else
                 (Rerun,
                  log_training_snapshot note_max_test (Some test_date) today
                    (st\<lparr>profile := Some (p\<lparr>profile_current_1rm := test_1rm\<rparr>)\<rparr>))
           | _ \<Rightarrow> (Returned, st)))"

text \<open>
  \<^verbatim>\<open>main\<close> runs the pages in the order of the tabs; a rerun or an exception ends the run. The
  protein page writes only the protein counters, which are not part of \<open>state\<close>.
\<close>

definition main :: "client option \<Rightarrow> int \<Rightarrow> event \<Rightarrow> state \<Rightarrow> outcome \<times> state" where
  "main cl today ev st =
     (let st1 = page_initial_settings cl today ev st
      in case page_training_week cl ev st1 of
           (Returned, st2) \<Rightarrow> page_progress_and_roadmap today ev st2
         | (out, st2) \<Rightarrow> (out, st2))"

section \<open>Training cycle: views used in the statements\<close>

text \<open>
  The items of a weekly plan in the order the nested loops visit them, each with the day of
  its day plan; the record of a (week, day, exercise) triple; and the two loops of
  \<^verbatim>\<open>check_all_records_saved_for_week\<close> as one loop over that list.
\<close>

definition plan_items :: "week_plan \<Rightarrow> (string \<times> menu_item) list" where
  "plan_items wp = concat (map (\<lambda>dp. map (Pair (day dp)) (menu dp)) wp)"

definition lookup_record :: "all_records \<Rightarrow> int \<Rightarrow> string \<Rightarrow> string \<Rightarrow> train_record option" where
  "lookup_record recs week_num d n = dict_get (dict_get recs week_num) d n"

definition has_record :: "all_records \<Rightarrow> int \<Rightarrow> string \<times> menu_item \<Rightarrow> bool" where
  "has_record recs week_num p = (lookup_record recs week_num (fst p) (name (snd p)) \<noteq> None)"

definition max_items :: "week_plan \<Rightarrow> (string \<times> menu_item) list" where
  "max_items wp = filter (\<lambda>p. item_is_max (snd p)) (plan_items wp)"

fun week_pairs_loop ::
  "int \<Rightarrow> week_records \<Rightarrow> (string \<times> menu_item) list \<Rightarrow> bool \<times> int \<Rightarrow> string + bool \<times> int" where
  "week_pairs_loop week_num recorded_data [] acc = Inr acc"
| "week_pairs_loop week_num recorded_data (p # ps) acc =
     (case dict_get recorded_data (fst p) (name (snd p)) of
        None \<Rightarrow> Inl (msg_missing (fst p) (name (snd p)))
      | Some r \<Rightarrow>
          week_pairs_loop week_num recorded_data ps
            (if week_num = 4 \<and> item_is_max (snd p) then (True, rec_weight r) else acc))"

text \<open>The reviewed flag of a (week, day) pair, read as the page reads it.\<close>

definition reviewed :: "state \<Rightarrow> int \<Rightarrow> string \<Rightarrow> bool" where
  "reviewed st week_num d = flag_get (dict_get (day_review_done st) week_num) d"

text \<open>The week number the next-week form generates a plan for.\<close>

definition next_week_num :: "state \<Rightarrow> int" where
  "next_week_num st = (if current_week st = 0 then 1 else current_week st + 1)"

section \<open>Example data\<close>

text \<open>
  A week-4 plan with one training day (Monday, the token \<^verbatim>\<open>WEEKDAYS_JP[0]\<close>) holding a max-test
  bench press and a rowing exercise, a second plan that marks two items as max tests, and a
  session state in the training screen of week 4 with goal weight 100.
\<close>

definition day_mon :: string where
  "day_mon = [CHR 0xE6, CHR 0x9C, CHR 0x88]"

definition day_wed :: string where
  "day_wed = [CHR 0xE6, CHR 0xB0, CHR 0xB4]"

definition ex_bench :: menu_item where
  "ex_bench = \<lparr>name = ''Bench Press'', sets = 1, reps = 1, weight = 100, is_max = Some True\<rparr>"

definition ex_row :: menu_item where
  "ex_row = \<lparr>name = ''Barbell Row'', sets = 3, reps = 8, weight = 60, is_max = None\<rparr>"

definition ex_incline_max :: menu_item where
  "ex_incline_max =
     \<lparr>name = ''Incline Press'', sets = 1, reps = 1, weight = 70, is_max = Some True\<rparr>"

definition ex_plan :: week_plan where
  "ex_plan = [\<lparr>day = day_mon, menu = [ex_bench, ex_row]\<rparr>]"

definition ex_plan_two_max :: week_plan where
  "ex_plan_two_max = [\<lparr>day = day_mon, menu = [ex_bench, ex_incline_max]\<rparr>]"

definition ex_info :: initial_info where
  "ex_info = \<lparr>height = 170, body_weight = 70, current_bp = 90, goal_bp = 100, freq = 1,
              weekdays = [day_mon]\<rparr>"

definition ex_client :: client where
  "ex_client = \<lparr>plan_reply = (\<lambda>week_num wds info recs max_bp. None),
                review_reply = (\<lambda>week_num d info recs max_result. Some ''Well done.'')\<rparr>"

definition ex_state :: state where
  "ex_state =
     \<lparr>profile = None, training_logs = [], initial_info = Some ex_info,
      weekly_plan = [ex_plan, ex_plan, ex_plan, ex_plan], records = Map.empty,
      current_week = 4, training_started = True, max_test_result = 90,
      goal_achieved_pending = False, max_registered_not_achieved = False,
      day_review_done = Map.empty, last_review = Map.empty,
      next_week_config_pending = False\<rparr>"

definition ex_save_bench :: save_input where
  "ex_save_bench = \<lparr>save_day = day_mon, save_name = ''Bench Press'', w_input = 102,
                    r_input = 5, s_input = 3, note_input = ''felt strong''\<rparr>"

definition ex_save_row :: save_input where
  "ex_save_row = \<lparr>save_day = day_mon, save_name = ''Barbell Row'', w_input = 60,
                  r_input = 8, s_input = 3, note_input = []\<rparr>"

definition ex_save_incline :: save_input where
  "ex_save_incline = \<lparr>save_day = day_mon, save_name = ''Incline Press'', w_input = 60,
                      r_input = 1, s_input = 1, note_input = []\<rparr>"

text \<open>The records after both items of the example plan have been saved.\<close>

definition ex_recorded :: state where
  "ex_recorded = save_record 4 day_mon ex_row ex_save_row (save_record 4 day_mon ex_bench ex_save_bench ex_state)"

definition ex_recorded_two_max :: state where
  "ex_recorded_two_max =
     save_record 4 day_mon ex_incline_max ex_save_incline
       (save_record 4 day_mon ex_bench ex_save_bench ex_state)"

text \<open>
  The example day reviewed once both records are saved; a state waiting in the next-week form
  after week 3; and a client whose plan request succeeds with the example plan.
\<close>

definition ex_reviewed :: state where
  "ex_reviewed = finish_day 4 day_mon ''Well done.'' ex_recorded"

definition ex_pending :: state where
  "ex_pending = ex_state\<lparr>current_week := 3, next_week_config_pending := True\<rparr>"

definition ex_client_ok :: client where
  "ex_client_ok = \<lparr>plan_reply = (\<lambda>week_num wds info recs max_bp. Some ex_plan),
                   review_reply = (\<lambda>week_num d info recs max_result. None)\<rparr>"

text \<open>The reviewed example with the log entry written when the profile was submitted.\<close>

definition ex_logged :: state where
  "ex_logged =
     ex_reviewed\<lparr>training_logs := [\<lparr>log_date = 0, log_current_1rm = 90, log_note = note_initial\<rparr>]\<rparr>"

text \<open>The example plan recorded on week 3, where the max-test flag of the bench press does not count.\<close>

definition ex_week3 :: state where
  "ex_week3 =
     save_record 3 day_mon ex_row ex_save_row
       (save_record 3 day_mon ex_bench ex_save_bench (ex_state\<lparr>current_week := 3\<rparr>))"

text \<open>The state after the goal-achieved acknowledgement with the new goal of 105 kg.\<close>

definition ex_restart :: state where
  "ex_restart = snd (main (Some ex_client) 0 (ClickRestartNewGoal 105) ex_logged)"

section \<open>Properties of the progress model\<close>

lemma weekly_gain_lower: "0.3 \<le> weekly_gain s"
  by (simp add: weekly_gain_def Let_def)

lemma weekly_gain_pos: "0 < weekly_gain s"
  using weekly_gain_lower [of s] by simp

lemma weekly_gain_mono: "s1 \<le> s2 \<Longrightarrow> weekly_gain s1 \<le> weekly_gain s2"
  unfolding weekly_gain_def Let_def
  by (rule max.mono) simp_all


lemma estimate_unfold:
  assumes c: "c < 100"
  shows "estimate_weeks_to_target c s = max 1 \<lfloor>(100 - c) / weekly_gain s + 0.999\<rfloor>"
proof -
  have "0 \<le> (100 - c) / weekly_gain s" using c weekly_gain_pos [of s] by simp
  then have "0 \<le> (100 - c) / weekly_gain s + 0.999" by simp
  then show ?thesis using c
    by (simp add: estimate_weeks_to_target_def TARGET_1RM_def py_int_def Let_def)
qed


lemma estimate_mono:
  assumes "s1 \<le> s2"
  shows "estimate_weeks_to_target c s2 \<le> estimate_weeks_to_target c s1"
proof (cases "100 \<le> c")
  case True
  then show ?thesis by (simp add: estimate_weeks_to_target_def TARGET_1RM_def)
next
  case False
  then have c: "c < 100" by simp
  have "(100 - c) / weekly_gain s2 \<le> (100 - c) / weekly_gain s1"
    using c weekly_gain_mono [OF assms] weekly_gain_pos [of s1]
    by (simp add: frac_le)
  then have "\<lfloor>(100 - c) / weekly_gain s2 + 0.999\<rfloor> \<le> \<lfloor>(100 - c) / weekly_gain s1 + 0.999\<rfloor>"
    by (intro floor_mono) simp
  then show ?thesis using estimate_unfold [OF c] by simp
qed




text \<open>
  Claim C9. The weekly gain is at least \<open>0.3\<close> for every \<open>sessions_per_week\<close>; for a fixed
  \<open>current_1rm\<close> the week count does not increase when \<open>sessions_per_week\<close> increases; in
  particular five sessions give at most the count of three sessions.
\<close>

theorem estimate_weeks_to_target_antimono:
  "0.3 \<le> weekly_gain s
   \<and> (s1 \<le> s2 \<longrightarrow> estimate_weeks_to_target c s2 \<le> estimate_weeks_to_target c s1)
   \<and> estimate_weeks_to_target c 5 \<le> estimate_weeks_to_target c 3"
  using weekly_gain_lower [of s] estimate_mono [of s1 s2 c] estimate_mono [of 3 5 c]
  by simp


theorem estimate_weeks_to_target_antimono_witness:
  "(0.3 :: rat) \<le> weekly_gain 3 \<and> (3 :: int) \<le> 5
   \<and> estimate_weeks_to_target 70 5 \<le> estimate_weeks_to_target 70 3"
  using estimate_weeks_to_target_antimono [of 3 3 5 70] by simp

section \<open>Properties of the ideal pace curve\<close>














section \<open>Properties of the deterministic plan generator\<close>

















section \<open>The week-completeness check\<close>

lemma week_items_loop_pairs:
  "week_items_loop w d rd items acc = week_pairs_loop w rd (map (Pair d) items) acc"
  by (induction items arbitrary: acc) (auto simp: dict_get_def split: option.splits)

lemma week_pairs_loop_append:
  "week_pairs_loop w rd (ps @ qs) acc =
     (case week_pairs_loop w rd ps acc of Inl m \<Rightarrow> Inl m | Inr a \<Rightarrow> week_pairs_loop w rd qs a)"
  by (induction ps arbitrary: acc) (auto split: option.splits)

lemma week_days_loop_pairs:
  "week_days_loop w rd wp acc = week_pairs_loop w rd (plan_items wp) acc"
proof (induction wp arbitrary: acc)
  case Nil
  show ?case by (simp add: plan_items_def)
next
  case (Cons dp wp)
  have "plan_items (dp # wp) = map (Pair (day dp)) (menu dp) @ plan_items wp"
    by (simp add: plan_items_def)
  then show ?case
    by (simp add: week_pairs_loop_append week_items_loop_pairs Cons.IH split: sum.splits)
qed

lemma week_pairs_loop_missing:
  assumes "\<not> list_all (has_record recs w) ps"
  shows "\<exists>m. week_pairs_loop w (dict_get recs w) ps acc = Inl m"
  using assms
  by (induction ps arbitrary: acc)
     (auto simp: has_record_def lookup_record_def split: option.splits)

lemma week_pairs_loop_not4:
  assumes "list_all (has_record recs w) ps" "w \<noteq> 4 \<or> filter (\<lambda>p. item_is_max (snd p)) ps = []"
  shows "week_pairs_loop w (dict_get recs w) ps acc = Inr acc"
  using assms
  by (induction ps arbitrary: acc)
     (auto simp: has_record_def lookup_record_def split: option.splits if_splits)

lemma week_pairs_loop_max:
  assumes "list_all (has_record recs 4) ps"
    and "filter (\<lambda>p. item_is_max (snd p)) ps \<noteq> []"
    and "lookup_record recs 4 (fst (last (filter (\<lambda>p. item_is_max (snd p)) ps)))
           (name (snd (last (filter (\<lambda>p. item_is_max (snd p)) ps)))) = Some r"
  shows "week_pairs_loop 4 (dict_get recs 4) ps acc = Inr (True, rec_weight r)"
  using assms
proof (induction ps arbitrary: acc)
  case Nil
  then show ?case by simp
next
  case (Cons p ps)
  from Cons.prems(1) obtain rp where rp: "dict_get (dict_get recs 4) (fst p) (name (snd p)) = Some rp"
    by (auto simp: has_record_def lookup_record_def)
  have all: "list_all (has_record recs 4) ps" using Cons.prems(1) by simp
  show ?case
  proof (cases "filter (\<lambda>p. item_is_max (snd p)) ps = []")
    case True
    then have m: "item_is_max (snd p)" using Cons.prems(2) by (auto split: if_splits)
    then have "rp = r" using Cons.prems(3) True rp by (simp add: lookup_record_def)
    then show ?thesis using rp m week_pairs_loop_not4 [OF all, of "(True, rec_weight r)"] True
      by simp
  next
    case False
    then have "last (filter (\<lambda>p. item_is_max (snd p)) (p # ps)) = last (filter (\<lambda>p. item_is_max (snd p)) ps)"
      by simp
    then show ?thesis using Cons.IH [OF all False] Cons.prems(3) rp by simp
  qed
qed

lemma check_week_unfold:
  "check_all_records_saved_for_week w wp recs st =
     (case week_pairs_loop w (dict_get recs w) (plan_items wp) (False, 0) of
        Inl m \<Rightarrow> (Inr (False, m), st)
      | Inr (max_measurement_done, max_weight) \<Rightarrow>
          if w = 4 \<and> max_measurement_done then
            (let st1 = st\<lparr>max_test_result := of_int max_weight\<rparr>
             in case initial_info st1 of
                  None \<Rightarrow> (Inl TypeError, st1)
                | Some info \<Rightarrow>
                    if of_int (goal_bp info) \<le> max_test_result st1 then
                      (Inr (True, msg_done),
                       st1\<lparr>goal_achieved_pending := True, max_registered_not_achieved := False\<rparr>)
                    else
                      (Inr (True, msg_done),
                       st1\<lparr>goal_achieved_pending := False, max_registered_not_achieved := True\<rparr>))
          else (Inr (True, msg_done), st))"
  by (simp add: check_all_records_saved_for_week_def week_days_loop_pairs)

lemma check_week4_result:
  assumes "list_all (has_record recs 4) (plan_items wp)"
    and "max_items wp \<noteq> []"
    and "last (max_items wp) = (d, item)"
    and "lookup_record recs 4 d (name item) = Some r"
    and "initial_info st = Some info"
  shows "check_all_records_saved_for_week 4 wp recs st =
           (Inr (True, msg_done),
            st\<lparr>max_test_result := of_int (rec_weight r),
               goal_achieved_pending := (goal_bp info \<le> rec_weight r),
               max_registered_not_achieved := (rec_weight r < goal_bp info)\<rparr>)"
proof -
  have "week_pairs_loop 4 (dict_get recs 4) (plan_items wp) (False, 0) = Inr (True, rec_weight r)"
    using week_pairs_loop_max [of recs "plan_items wp" r "(False, 0)"] assms
    by (simp add: max_items_def)
  then show ?thesis using assms(5)
    by (simp add: check_week_unfold Let_def)
qed

lemma check_week_frame:
  assumes "week_num \<noteq> 4 \<or>
     \<not> list_ex (\<lambda>p. item_is_max (snd p) \<and> has_record recs week_num p) (plan_items wp)"
  shows "snd (check_all_records_saved_for_week week_num wp recs st) = st
    \<and> (\<exists>m. fst (check_all_records_saved_for_week week_num wp recs st) =
             Inr (list_all (has_record recs week_num) (plan_items wp), m))"
proof (cases "list_all (has_record recs week_num) (plan_items wp)")
  case False
  then obtain m where "week_pairs_loop week_num (dict_get recs week_num) (plan_items wp) (False, 0) = Inl m"
    using week_pairs_loop_missing by blast
  then show ?thesis using False by (simp add: check_week_unfold)
next
  case True
  have "week_num \<noteq> 4 \<or> filter (\<lambda>p. item_is_max (snd p)) (plan_items wp) = []"
  proof (cases "week_num = 4")
    case w4: True
    then have "\<not> list_ex (\<lambda>p. item_is_max (snd p) \<and> has_record recs week_num p) (plan_items wp)"
      using assms by simp
    then have "\<forall>p \<in> set (plan_items wp). \<not> item_is_max (snd p)"
      using True by (auto simp: list_ex_iff list_all_iff)
    then show ?thesis by (simp add: filter_empty_conv)
  qed simp
  then have "week_pairs_loop week_num (dict_get recs week_num) (plan_items wp) (False, 0) = Inr (False, 0)"
    using week_pairs_loop_not4 [OF True] by blast
  then show ?thesis using True by (simp add: check_week_unfold)
qed


lemmas ex_defs = ex_recorded_def ex_recorded_two_max_def ex_state_def ex_plan_def ex_plan_two_max_def
  ex_bench_def ex_row_def ex_incline_max_def ex_info_def ex_save_bench_def ex_save_row_def
  ex_save_incline_def day_mon_def save_record_def Let_def

lemmas view_defs = plan_items_def has_record_def lookup_record_def dict_get_def item_is_max_def
  max_items_def

text \<open>
  Claim C1, as the code has it. On week 4, when every item of the plan has a record and the
  plan marks at least one item as a max test, \<^verbatim>\<open>check_all_records_saved_for_week\<close> returns
  true and writes the benchmark weight \<^verbatim>\<open>max_test_result\<close> from the record of the last
  max-test item in plan order (the only one, when the plan marks exactly one). It sets the
  goal-achieved flag iff that weight is at least the goal weight and the goal-missed flag iff
  it is strictly below, so exactly one of the two is set. Evaluating the check again on the
  resulting state changes nothing more.
\<close>

theorem check_week4_sets_benchmark:
  assumes "list_all (has_record recs 4) (plan_items wp)"
    and "max_items wp \<noteq> []"
    and "last (max_items wp) = (d, item)"
    and "lookup_record recs 4 d (name item) = Some r"
    and "initial_info st = Some info"
  shows "let st' = st\<lparr>max_test_result := of_int (rec_weight r),
                      goal_achieved_pending := (goal_bp info \<le> rec_weight r),
                      max_registered_not_achieved := (rec_weight r < goal_bp info)\<rparr>
         in check_all_records_saved_for_week 4 wp recs st = (Inr (True, msg_done), st')
          \<and> (goal_achieved_pending st' \<longleftrightarrow> \<not> max_registered_not_achieved st')
          \<and> check_all_records_saved_for_week 4 wp recs st' = (Inr (True, msg_done), st')"
proof -
  define st' where "st' = st\<lparr>max_test_result := of_int (rec_weight r),
                      goal_achieved_pending := (goal_bp info \<le> rec_weight r),
                      max_registered_not_achieved := (rec_weight r < goal_bp info)\<rparr>"
  have i: "initial_info st' = Some info" using assms(5) by (simp add: st'_def)
  have 1: "check_all_records_saved_for_week 4 wp recs st = (Inr (True, msg_done), st')"
    unfolding st'_def by (rule check_week4_result [OF assms])
  have 2: "goal_achieved_pending st' \<longleftrightarrow> \<not> max_registered_not_achieved st'"
    by (auto simp: st'_def)
  have 3: "check_all_records_saved_for_week 4 wp recs st' = (Inr (True, msg_done), st')"
    using check_week4_result [OF assms(1-4) i] by (simp add: st'_def)
  show ?thesis using 1 2 3 by (simp add: st'_def Let_def)
qed

text \<open>
  Claim C1 as the specification states it (the benchmark is the weight of the record of any
  recorded max-test item) fails for a plan that marks two items: the bench press is a
  max-test item recorded at 102 kg, above the goal of 100 kg, every item is recorded, and the
  check writes the benchmark 60 kg of the later max-test item and sets the goal-missed flag.
\<close>

theorem check_week4_two_max_items:
  "list_all (has_record (records ex_recorded_two_max) 4) (plan_items ex_plan_two_max)
   \<and> (day_mon, ex_bench) \<in> set (plan_items ex_plan_two_max)
   \<and> item_is_max ex_bench
   \<and> map_option rec_weight (lookup_record (records ex_recorded_two_max) 4 day_mon (name ex_bench))
       = Some 102
   \<and> map_option goal_bp (initial_info ex_recorded_two_max) = Some 100
   \<and> max_test_result (snd (check_all_records_saved_for_week 4 ex_plan_two_max
        (records ex_recorded_two_max) ex_recorded_two_max)) = 60
   \<and> \<not> goal_achieved_pending (snd (check_all_records_saved_for_week 4 ex_plan_two_max
        (records ex_recorded_two_max) ex_recorded_two_max))
   \<and> max_registered_not_achieved (snd (check_all_records_saved_for_week 4 ex_plan_two_max
        (records ex_recorded_two_max) ex_recorded_two_max))"
  by (simp add: ex_defs view_defs check_all_records_saved_for_week_def)

text \<open>The statement of C1 on the example plan: the benchmark becomes 102 kg, the goal is achieved.\<close>

theorem check_week4_sets_benchmark_witness:
  "list_all (has_record (records ex_recorded) 4) (plan_items ex_plan)
   \<and> max_items ex_plan \<noteq> []
   \<and> last (max_items ex_plan) = (day_mon, ex_bench)
   \<and> map_option rec_weight (lookup_record (records ex_recorded) 4 day_mon (name ex_bench)) = Some 102
   \<and> initial_info ex_recorded = Some ex_info
   \<and> check_all_records_saved_for_week 4 ex_plan (records ex_recorded) ex_recorded =
       (Inr (True, msg_done),
        ex_recorded\<lparr>max_test_result := 102, goal_achieved_pending := True,
                    max_registered_not_achieved := False\<rparr>)"
proof -
  let ?r = "\<lparr>rec_weight = 102, rec_reps = 1, rec_sets = 1, rec_note = ''felt strong'',
             rec_is_max = True\<rparr>"
  have 1: "list_all (has_record (records ex_recorded) 4) (plan_items ex_plan)"
    by (simp add: ex_defs view_defs)
  have 2: "max_items ex_plan \<noteq> []" by (simp add: ex_defs view_defs)
  have 3: "last (max_items ex_plan) = (day_mon, ex_bench)" by (simp add: ex_defs view_defs)
  have 4: "lookup_record (records ex_recorded) 4 day_mon (name ex_bench) = Some ?r"
    by (simp add: ex_defs view_defs)
  have 5: "initial_info ex_recorded = Some ex_info" by (simp add: ex_defs view_defs)
  have g: "goal_bp ex_info = 100" by (simp add: ex_info_def)
  show ?thesis
    using check_week4_sets_benchmark [OF 1 2 3 4 5] 1 2 3 4 5 g
    by (simp add: Let_def)
qed

text \<open>
  Claim C10. For a week number other than 4, and on week 4 when no max-test item of the plan
  has a record, \<^verbatim>\<open>check_all_records_saved_for_week\<close> leaves the whole session state as it was
  (in particular \<^verbatim>\<open>max_test_result\<close> and the two pending flags), and its boolean result says
  whether every item of every day has a record.
\<close>

theorem check_week_no_mutation:
  assumes "week_num \<noteq> 4 \<or>
     \<not> list_ex (\<lambda>p. item_is_max (snd p) \<and> has_record recs week_num p) (plan_items wp)"
  shows "snd (check_all_records_saved_for_week week_num wp recs st) = st
    \<and> (\<exists>m. fst (check_all_records_saved_for_week week_num wp recs st) =
             Inr (list_all (has_record recs week_num) (plan_items wp), m))"
  using assms by (rule check_week_frame)

text \<open>
  The statement of C10 on week 3 with every item recorded, the max-test bench press at 102 kg
  above the goal among them: the check returns true and the benchmark of 90 kg and the
  pending flags are as before. And on week 4 without any record: the check returns false
  with the message of the first missing item and the state is as before.
\<close>

theorem check_week_no_mutation_witness:
  "(3 :: int) \<noteq> 4
   \<and> list_ex (\<lambda>p. item_is_max (snd p) \<and> has_record (records ex_week3) 3 p) (plan_items ex_plan)
   \<and> list_all (has_record (records ex_week3) 3) (plan_items ex_plan)
   \<and> check_all_records_saved_for_week 3 ex_plan (records ex_week3) ex_week3 =
       (Inr (True, msg_done), ex_week3)
   \<and> max_test_result ex_week3 = 90 \<and> \<not> goal_achieved_pending ex_week3
   \<and> \<not> list_ex (\<lambda>p. item_is_max (snd p) \<and> has_record (records ex_state) 4 p) (plan_items ex_plan)
   \<and> snd (check_all_records_saved_for_week 4 ex_plan (records ex_state) ex_state) = ex_state
   \<and> fst (check_all_records_saved_for_week 4 ex_plan (records ex_state) ex_state) =
       Inr (False, msg_missing day_mon ''Bench Press'')"
proof -
  have 1: "\<not> list_ex (\<lambda>p. item_is_max (snd p) \<and> has_record (records ex_state) 4 p) (plan_items ex_plan)"
    by (simp add: ex_defs view_defs)
  have 2: "list_ex (\<lambda>p. item_is_max (snd p) \<and> has_record (records ex_week3) 3 p) (plan_items ex_plan)"
    "list_all (has_record (records ex_week3) 3) (plan_items ex_plan)"
    "max_test_result ex_week3 = 90" "\<not> goal_achieved_pending ex_week3"
    by (simp_all add: ex_week3_def ex_defs view_defs)
  have 3: "fst (check_all_records_saved_for_week 3 ex_plan (records ex_week3) ex_week3) =
       Inr (True, msg_done)"
    by (simp add: check_all_records_saved_for_week_def ex_week3_def ex_defs view_defs)
  have 4: "fst (check_all_records_saved_for_week 4 ex_plan (records ex_state) ex_state) =
       Inr (False, msg_missing day_mon ''Bench Press'')"
    by (simp add: check_all_records_saved_for_week_def ex_defs view_defs)
  show ?thesis
    using check_week_no_mutation [of 4 "records ex_state" ex_plan ex_state]
      check_week_no_mutation [of 3 "records ex_week3" ex_plan ex_week3] 1 2 3 4
    by (simp add: prod_eq_iff)
qed

section \<open>Saving a record and the next-week form\<close>

text \<open>
  Claim C4. After the save handler has run for an item of a day, reading
  \<^verbatim>\<open>records[week][day][name]\<close> gives the weight and the note that were entered, and the reps
  and sets that were entered, except on week 4 for a max-test item, where reps and sets are
  both 1 whatever was entered.
\<close>

theorem save_record_roundtrip:
  "lookup_record (records (save_record week_number d item inp st)) week_number d (name item) =
     Some \<lparr>rec_weight = w_input inp,
           rec_reps = (if week_number = 4 \<and> item_is_max item then 1 else r_input inp),
           rec_sets = (if week_number = 4 \<and> item_is_max item then 1 else s_input inp),
           rec_note = note_input inp,
           rec_is_max = item_is_max item\<rparr>"
  by (simp add: save_record_def lookup_record_def dict_get_def Let_def)

lemma page_initial_settings_other:
  "\<forall>inp. ev \<noteq> SubmitProfile inp \<Longrightarrow> page_initial_settings cl today ev st = st"
  by (cases ev) (auto simp add: page_initial_settings_def)

lemma page_progress_other:
  "\<forall>t v. ev \<noteq> SubmitMaxTest t v \<Longrightarrow> page_progress_and_roadmap today ev st = (Returned, st)"
  by (cases ev) (auto simp add: page_progress_and_roadmap_def split: option.splits)

lemma main_config:
  "main cl today (SubmitNextWeekConfig f wds) st =
     page_training_week cl (SubmitNextWeekConfig f wds) st"
proof -
  obtain out st2 where p: "page_training_week cl (SubmitNextWeekConfig f wds) st = (out, st2)"
    by (cases "page_training_week cl (SubmitNextWeekConfig f wds) st")
  show ?thesis
    by (cases out) (simp_all add: main_def page_initial_settings_other page_progress_other p)
qed

lemma config_failure:
  assumes "initial_info st = Some info" "next_week_config_pending st"
    and "int (length wds) = f"
    and "plan_reply c (next_week_num st) wds (info\<lparr>freq := f, weekdays := wds\<rparr>) (records st)
           (max_test_result st) \<in> {None, Some []}"
  shows "page_training_week (Some c) (SubmitNextWeekConfig f wds) st =
           (Returned, st\<lparr>initial_info := Some (info\<lparr>freq := f, weekdays := wds\<rparr>)\<rparr>)"
  using assms
  by (auto simp: page_training_week_def next_week_config_submit_def generate_ai_week_plan_def
      next_week_num_def Let_def)

lemma no_client: "page_training_week None ev st = (Returned, st)"
  by (simp add: page_training_week_def split: option.splits)

text \<open>
  Claim C2, as the code has it. When the next-week form is submitted with as many weekdays as
  sessions and the plan request fails (the call or the parsing raises, or the reply holds no
  plan), the run changes nothing but the stored configuration: the session count and the
  weekday list of \<^verbatim>\<open>initial_info\<close> hold the submitted values, and the week number, the
  weekly plans, the records, the review flags and texts and every other field are as before.
  Without a client the page returns before the form and nothing changes at all.
\<close>

theorem next_week_config_failure:
  assumes "initial_info st = Some info" "next_week_config_pending st"
    and "int (length wds) = f"
    and "plan_reply c (next_week_num st) wds (info\<lparr>freq := f, weekdays := wds\<rparr>) (records st)
           (max_test_result st) \<in> {None, Some []}"
  shows "main (Some c) today (SubmitNextWeekConfig f wds) st =
           (Returned, st\<lparr>initial_info := Some (info\<lparr>freq := f, weekdays := wds\<rparr>)\<rparr>)
       \<and> main None today (SubmitNextWeekConfig f wds) st = (Returned, st)"
  using config_failure [OF assms] by (simp add: main_config no_client)

text \<open>
  Claim C2 as the specification states it (the stored configuration is as before) fails:
  with one session on Monday stored, submitting two sessions on Monday and Wednesday to a
  client whose plan request fails leaves two sessions and both weekdays stored.
\<close>

theorem next_week_config_failure_changes_config:
  "initial_info ex_pending = Some ex_info
   \<and> next_week_config_pending ex_pending
   \<and> int (length [day_mon, day_wed]) = 2
   \<and> generate_ai_week_plan (next_week_num ex_pending) [day_mon, day_wed]
        (ex_info\<lparr>freq := 2, weekdays := [day_mon, day_wed]\<rparr>) (records ex_pending)
        (max_test_result ex_pending) (Some ex_client) = None
   \<and> map_option freq (initial_info ex_pending) = Some 1
   \<and> map_option weekdays (initial_info ex_pending) = Some [day_mon]
   \<and> map_option freq (initial_info
        (snd (main (Some ex_client) 0 (SubmitNextWeekConfig 2 [day_mon, day_wed]) ex_pending)))
       = Some 2
   \<and> map_option weekdays (initial_info
        (snd (main (Some ex_client) 0 (SubmitNextWeekConfig 2 [day_mon, day_wed]) ex_pending)))
       = Some [day_mon, day_wed]"
  by (simp add: main_config page_training_week_def next_week_config_submit_def
      generate_ai_week_plan_def next_week_num_def ex_pending_def ex_state_def ex_info_def
      ex_client_def Let_def)

text \<open>The statement of C2 on the same input.\<close>

theorem next_week_config_failure_witness:
  "initial_info ex_pending = Some ex_info
   \<and> next_week_config_pending ex_pending
   \<and> int (length [day_mon, day_wed]) = 2
   \<and> plan_reply ex_client (next_week_num ex_pending) [day_mon, day_wed]
        (ex_info\<lparr>freq := 2, weekdays := [day_mon, day_wed]\<rparr>) (records ex_pending)
        (max_test_result ex_pending) \<in> {None, Some []}
   \<and> main (Some ex_client) 0 (SubmitNextWeekConfig 2 [day_mon, day_wed]) ex_pending =
       (Returned,
        ex_pending\<lparr>initial_info := Some (ex_info\<lparr>freq := 2, weekdays := [day_mon, day_wed]\<rparr>)\<rparr>)"
proof -
  have 1: "initial_info ex_pending = Some ex_info" by (simp add: ex_pending_def ex_state_def)
  have 2: "next_week_config_pending ex_pending" by (simp add: ex_pending_def)
  have 3: "int (length [day_mon, day_wed]) = 2" by simp
  have 4: "plan_reply ex_client (next_week_num ex_pending) [day_mon, day_wed]
        (ex_info\<lparr>freq := 2, weekdays := [day_mon, day_wed]\<rparr>) (records ex_pending)
        (max_test_result ex_pending) \<in> {None, Some []}"
    by (simp add: ex_client_def)
  show ?thesis using next_week_config_failure [OF 1 2 3 4, of 0] 1 2 3 4 by simp
qed

text \<open>
  The scenario of the specification: on week 4 the max-test bench press is saved with weight
  102, reps 5 and sets 3, through the page; the stored record has reps 1 and sets 1.
\<close>

theorem save_record_roundtrip_witness:
  "page_training_week (Some ex_client) (ClickSave ex_save_bench) ex_state =
     (Rerun, save_record 4 day_mon ex_bench ex_save_bench ex_state)
   \<and> r_input ex_save_bench = 5 \<and> s_input ex_save_bench = 3
   \<and> lookup_record (records (save_record 4 day_mon ex_bench ex_save_bench ex_state)) 4 day_mon
        ''Bench Press'' =
       Some \<lparr>rec_weight = 102, rec_reps = 1, rec_sets = 1, rec_note = ''felt strong'',
             rec_is_max = True\<rparr>"
proof -
  have "page_training_week (Some ex_client) (ClickSave ex_save_bench) ex_state =
     (Rerun, save_record 4 day_mon ex_bench ex_save_bench ex_state)"
    by (simp add: page_training_week_def ex_state_def ex_plan_def py_index_def Let_def
        flag_get_def dict_get_def ex_save_bench_def ex_bench_def day_mon_def)
  then show ?thesis
    using save_record_roundtrip [of 4 day_mon ex_bench ex_save_bench ex_state]
    by (simp add: ex_bench_def ex_save_bench_def item_is_max_def)
qed

section \<open>One run of the application\<close>

section \<open>Frames of the handlers\<close>

lemma check_week_writes:
  "\<exists>a b c. snd (check_all_records_saved_for_week w wp recs st) =
     st\<lparr>max_test_result := a, goal_achieved_pending := b, max_registered_not_achieved := c\<rparr>"
proof -
  have same: "st = st\<lparr>max_test_result := max_test_result st,
      goal_achieved_pending := goal_achieved_pending st,
      max_registered_not_achieved := max_registered_not_achieved st\<rparr>" by simp
  have one: "\<And>x. st\<lparr>max_test_result := x\<rparr> = st\<lparr>max_test_result := x,
      goal_achieved_pending := goal_achieved_pending st,
      max_registered_not_achieved := max_registered_not_achieved st\<rparr>" by simp
  show ?thesis
    unfolding check_all_records_saved_for_week_def Let_def
    by (auto split: sum.splits prod.splits option.splits intro: exI [of _ "max_test_result st"] same one)
qed

lemma check_week_frame_fields:
  "training_logs (snd (check_all_records_saved_for_week w wp recs st)) = training_logs st"
  "day_review_done (snd (check_all_records_saved_for_week w wp recs st)) = day_review_done st"
  "last_review (snd (check_all_records_saved_for_week w wp recs st)) = last_review st"
  "records (snd (check_all_records_saved_for_week w wp recs st)) = records st"
  "initial_info (snd (check_all_records_saved_for_week w wp recs st)) = initial_info st"
  "current_week (snd (check_all_records_saved_for_week w wp recs st)) = current_week st"
  using check_week_writes [of w wp recs st] by auto

lemma week_footer_frame:
  "training_logs (snd (week_footer ev w wp st)) = training_logs st"
  "day_review_done (snd (week_footer ev w wp st)) = day_review_done st"
  "last_review (snd (week_footer ev w wp st)) = last_review st"
  "records (snd (week_footer ev w wp st)) = records st"
proof -
  obtain res st1 where c: "check_all_records_saved_for_week w wp (records st) st = (res, st1)"
    by (cases "check_all_records_saved_for_week w wp (records st) st")
  have f: "training_logs st1 = training_logs st" "day_review_done st1 = day_review_done st"
    "last_review st1 = last_review st" "records st1 = records st"
    using check_week_frame_fields [of w wp "records st" st] c by simp_all
  show "training_logs (snd (week_footer ev w wp st)) = training_logs st"
    unfolding week_footer_def c Let_def
    by (simp add: f split: sum.splits prod.splits option.splits event.splits)
  show "day_review_done (snd (week_footer ev w wp st)) = day_review_done st"
    unfolding week_footer_def c Let_def
    by (simp add: f split: sum.splits prod.splits option.splits event.splits)
  show "last_review (snd (week_footer ev w wp st)) = last_review st"
    unfolding week_footer_def c Let_def
    by (simp add: f split: sum.splits prod.splits option.splits event.splits)
  show "records (snd (week_footer ev w wp st)) = records st"
    unfolding week_footer_def c Let_def
    by (simp add: f split: sum.splits prod.splits option.splits event.splits)
qed

lemma items_loop_Some:
  "items_loop ev w d dis items st = Some st' \<Longrightarrow>
     \<exists>inp item. ev = ClickSave inp \<and> st' = save_record w d item inp st"
  by (induction items) (auto split: event.splits if_splits)

lemma items_loop_other:
  "\<forall>inp. ev \<noteq> ClickSave inp \<Longrightarrow> items_loop ev w d dis items st = None"
  by (induction items) (auto split: event.splits)

lemma days_loop_Some:
  "days_loop c info ev w wp dps st = Some st' \<Longrightarrow>
     (\<exists>inp d item. ev = ClickSave inp \<and> st' = save_record w d item inp st)
   \<or> (\<exists>dp \<in> set dps. ev = ClickFinishDay (day dp)
         \<and> fst (check_all_records_saved_for_day w (day dp) wp (records st))
         \<and> \<not> reviewed st w (day dp)
         \<and> (\<exists>text. st' = finish_day w (day dp) text st))"
proof (induction dps)
  case Nil
  then show ?case by simp
next
  case (Cons dp dps)
  show ?case
  proof (cases "items_loop ev w (day dp) (flag_get (dict_get (day_review_done st) w) (day dp)) (menu dp) st")
    case (Some s)
    then have "s = st'" using Cons.prems by (simp add: Let_def)
    then show ?thesis using items_loop_Some [OF Some] by blast
  next
    case None
    show ?thesis
    proof (cases "fst (check_all_records_saved_for_day w (day dp) wp (records st))
        \<and> \<not> flag_get (dict_get (day_review_done st) w) (day dp) \<and> ev = ClickFinishDay (day dp)")
      case True
      then have "st' = finish_day w (day dp)
          (generate_ai_daily_review w (day dp) info (records st) (max_test_result st) (Some c)) st"
        using Cons.prems None by (simp add: Let_def)
      then show ?thesis using True by (auto simp: reviewed_def)
    next
      case False
      then have "days_loop c info ev w wp dps st = Some st'"
        using Cons.prems None by (auto simp add: Let_def)
      from Cons.IH [OF this] show ?thesis by auto
    qed
  qed
qed

lemma days_loop_other:
  assumes "\<forall>inp. ev \<noteq> ClickSave inp" "\<forall>d. ev \<noteq> ClickFinishDay d"
  shows "days_loop c info ev w wp dps st = None"
  using assms by (induction dps) (auto simp: Let_def items_loop_other)


lemma save_record_frame:
  "training_logs (save_record w d item inp st) = training_logs st"
  "day_review_done (save_record w d item inp st) = day_review_done st"
  "last_review (save_record w d item inp st) = last_review st"
  by (simp_all add: save_record_def Let_def)

lemma finish_day_frame:
  "training_logs (finish_day w d text st) = training_logs st"
  "records (finish_day w d text st) = records st"
  by (simp_all add: finish_day_def)


lemma config_submit_shape:
  "snd (next_week_config_submit c info f wds st) = st
   \<or> snd (next_week_config_submit c info f wds st) =
        st\<lparr>initial_info := Some (info\<lparr>freq := f, weekdays := wds\<rparr>)\<rparr>
   \<or> (\<exists>p. next_week_config_submit c info f wds st =
        (Rerun,
         st\<lparr>initial_info := Some (info\<lparr>freq := f, weekdays := wds\<rparr>),
            current_week := next_week_num st,
            weekly_plan := (if current_week st = 0 then [p] else weekly_plan st @ [p]),
            records := (if current_week st = 0 then Map.empty else records st),
            day_review_done := Map.empty,
            last_review := Map.empty,
            next_week_config_pending := False,
            training_started := False,
            goal_achieved_pending := False,
            max_registered_not_achieved := False\<rparr>))"
  unfolding next_week_config_submit_def next_week_num_def Let_def
  by (auto split: option.splits list.splits)

lemma reviewed_empty: "day_review_done st' = Map.empty \<Longrightarrow> \<not> reviewed st' w d"
  by (simp add: reviewed_def flag_get_def dict_get_def)

lemma page_training_week_cases:
  obtains
    (same) "page_training_week cl ev st = (Returned, st)"
  | (raised) "page_training_week cl ev st = (Raised IndexError, st)"
  | (started) b where "snd (page_training_week cl ev st) = st\<lparr>training_started := b\<rparr>"
      "\<not> next_week_config_pending st"
  | (config) c info f wds where "cl = Some c" "initial_info st = Some info"
      "next_week_config_pending st" "ev = SubmitNextWeekConfig f wds"
      "page_training_week cl ev st = next_week_config_submit c info f wds st"
  | (handler) c info wp st' where "cl = Some c" "initial_info st = Some info"
      "\<not> next_week_config_pending st"
      "py_index (weekly_plan st) (current_week st - 1) = Some wp"
      "days_loop c info ev (current_week st) wp wp st = Some st'"
      "page_training_week cl ev st = (Rerun, st')"
  | (footer) c info wp where "cl = Some c" "initial_info st = Some info"
      "\<not> next_week_config_pending st"
      "py_index (weekly_plan st) (current_week st - 1) = Some wp"
      "days_loop c info ev (current_week st) wp wp st = None"
      "page_training_week cl ev st = week_footer ev (current_week st) wp st"
proof (cases "initial_info st")
  case None
  then show ?thesis using same by (simp add: page_training_week_def)
next
  case info: (Some info)
  show ?thesis
  proof (cases cl)
    case None
    then show ?thesis using same info by (simp add: page_training_week_def)
  next
    case c: (Some c)
    show ?thesis
    proof (cases "next_week_config_pending st")
      case True
      show ?thesis
      proof (cases "\<exists>f wds. ev = SubmitNextWeekConfig f wds")
        case True
        then obtain f wds where e: "ev = SubmitNextWeekConfig f wds" by blast
        show ?thesis
          using config [OF c info \<open>next_week_config_pending st\<close> e]
          by (simp add: page_training_week_def info c \<open>next_week_config_pending st\<close> e)
      next
        case False
        then have "page_training_week cl ev st = (Returned, st)"
          using \<open>next_week_config_pending st\<close> info c
          by (cases ev) (simp_all add: page_training_week_def)
        then show ?thesis by (rule same)
      qed
    next
      case np: False
      show ?thesis
      proof (cases "training_started st")
        case False
        then have "snd (page_training_week cl ev st) = st\<lparr>training_started := (ev = ClickStartTraining)\<rparr>"
          using np info c by (cases ev) (simp_all add: page_training_week_def)
        then show ?thesis using started np by blast
      next
        case ts: True
        show ?thesis
        proof (cases "int (length (weekly_plan st)) \<le> current_week st - 1")
          case True
          then have "snd (page_training_week cl ev st) = st\<lparr>training_started := False\<rparr>"
            using np info c ts by (simp add: page_training_week_def Let_def)
          then show ?thesis using started np by blast
        next
          case inb: False
          show ?thesis
          proof (cases "py_index (weekly_plan st) (current_week st - 1)")
            case None
            then have "page_training_week cl ev st = (Raised IndexError, st)"
              using np info c ts inb by (simp add: page_training_week_def Let_def)
            then show ?thesis by (rule raised)
          next
            case wp: (Some wp)
            show ?thesis
            proof (cases "days_loop c info ev (current_week st) wp wp st")
              case None
              then have "page_training_week cl ev st = week_footer ev (current_week st) wp st"
                using np info c ts inb wp by (simp add: page_training_week_def Let_def)
              then show ?thesis using footer [OF c info np wp None] by blast
            next
              case (Some st')
              then have "page_training_week cl ev st = (Rerun, st')"
                using np info c ts inb wp by (simp add: page_training_week_def Let_def)
              then show ?thesis using handler [OF c info np wp Some] by blast
            qed
          qed
        qed
      qed
    qed
  qed
qed

lemma page_training_week_logs:
  "training_logs (snd (page_training_week cl ev st)) = training_logs st"
proof (cases rule: page_training_week_cases [of cl ev st])
  case (config c info f wds)
  then show ?thesis using config_submit_shape [of c info f wds st] by auto
next
  case (handler c info wp st')
  then show ?thesis
    using days_loop_Some [OF handler(5)] by (auto simp: save_record_frame finish_day_frame)
next
  case (footer c info wp)
  then show ?thesis by (simp add: week_footer_frame)
qed simp_all






lemma log_training_snapshot_frame:
  "day_review_done (log_training_snapshot n ld today st) = day_review_done st"
  "last_review (log_training_snapshot n ld today st) = last_review st"
  "records (log_training_snapshot n ld today st) = records st"
  "prefix (training_logs st) (training_logs (log_training_snapshot n ld today st))"
  by (simp_all add: log_training_snapshot_def Let_def split: option.splits)

lemma page_initial_settings_shape:
  "\<exists>st0::state. prefix (training_logs st) (training_logs st0)
     \<and> day_review_done st0 = day_review_done st
     \<and> training_logs (page_initial_settings cl today ev st) = training_logs st0
     \<and> (day_review_done (page_initial_settings cl today ev st) = day_review_done st0
        \<or> day_review_done (page_initial_settings cl today ev st) = Map.empty)"
proof (cases "\<exists>inp. ev = SubmitProfile inp \<and> in_weekdays inp \<noteq> []")
  case False
  then have "page_initial_settings cl today ev st = st"
    by (cases ev) (auto simp: page_initial_settings_def)
  then show ?thesis by - (rule exI [of _ st], simp)
next
  case True
  then obtain inp where e: "ev = SubmitProfile inp" "in_weekdays inp \<noteq> []" by blast
  let ?st1 = "st\<lparr>profile := Some \<lparr>profile_height = in_height inp,
       profile_weight = in_weight inp,
       profile_current_1rm = in_current_1rm inp,
       profile_sessions_per_week = int (length (in_weekdays inp)),
       profile_target_weeks = estimate_weeks_to_target (in_current_1rm inp) (int (length (in_weekdays inp))),
       profile_target_date = today + 7 * estimate_weeks_to_target (in_current_1rm inp) (int (length (in_weekdays inp))),
       profile_start_date = today\<rparr>\<rparr>"
  let ?st2 = "log_training_snapshot note_initial (Some today) today ?st1"
  have p: "prefix (training_logs st) (training_logs ?st2)"
    using log_training_snapshot_frame(4) [of ?st1 note_initial "Some today" today] by simp
  have d: "day_review_done ?st2 = day_review_done st"
    by (simp add: log_training_snapshot_frame)
  have "training_logs (page_initial_settings cl today ev st) = training_logs ?st2
     \<and> (day_review_done (page_initial_settings cl today ev st) = day_review_done ?st2
        \<or> day_review_done (page_initial_settings cl today ev st) = Map.empty)"
    using e by (simp add: page_initial_settings_def Let_def split: option.splits list.splits)
  then show ?thesis using p d by (intro exI [of _ ?st2]) simp
qed

lemma page_initial_settings_logs:
  "prefix (training_logs st) (training_logs (page_initial_settings cl today ev st))"
  using page_initial_settings_shape [of st cl today ev] by auto


lemma page_progress_frame:
  "day_review_done (snd (page_progress_and_roadmap today ev st)) = day_review_done st"
  "last_review (snd (page_progress_and_roadmap today ev st)) = last_review st"
  "prefix (training_logs st) (training_logs (snd (page_progress_and_roadmap today ev st)))"
proof -
  have "snd (page_progress_and_roadmap today ev st) = st
    \<or> (\<exists>p t. snd (page_progress_and_roadmap today ev st) =
          log_training_snapshot note_max_test (Some t) today (st\<lparr>profile := p\<rparr>))"
    by (cases ev) (auto simp: page_progress_and_roadmap_def split: option.splits)
  then show "day_review_done (snd (page_progress_and_roadmap today ev st)) = day_review_done st"
    "last_review (snd (page_progress_and_roadmap today ev st)) = last_review st"
    "prefix (training_logs st) (training_logs (snd (page_progress_and_roadmap today ev st)))"
    using log_training_snapshot_frame(4) [of _ note_max_test _ today]
    by (auto simp: log_training_snapshot_frame(1,2) log_training_snapshot_def Let_def split: option.splits)
qed

lemma main_snd_cases:
  "snd (main cl today ev st) = snd (page_training_week cl ev (page_initial_settings cl today ev st))
   \<or> snd (main cl today ev st) =
       snd (page_progress_and_roadmap today ev
              (snd (page_training_week cl ev (page_initial_settings cl today ev st))))"
proof -
  obtain out st2 where p: "page_training_week cl ev (page_initial_settings cl today ev st) = (out, st2)"
    by (cases "page_training_week cl ev (page_initial_settings cl today ev st)")
  show ?thesis by (cases out) (simp_all add: main_def p)
qed

lemma main_logs: "prefix (training_logs st) (training_logs (snd (main cl today ev st)))"
proof -
  let ?st1 = "page_initial_settings cl today ev st"
  let ?st2 = "snd (page_training_week cl ev ?st1)"
  have 1: "prefix (training_logs st) (training_logs ?st2)"
    using page_initial_settings_logs [of st cl today ev] by (simp add: page_training_week_logs)
  have 2: "prefix (training_logs ?st2) (training_logs (snd (page_progress_and_roadmap today ev ?st2)))"
    by (rule page_progress_frame)
  show ?thesis using main_snd_cases [of cl today ev st] 1 2 by (auto intro: prefix_order.trans)
qed


lemma week_footer_Rerun:
  assumes "week_footer ev w wp st = (Rerun, st')"
  shows "(((\<exists>g. ev = ClickRestartNewGoal g) \<or> ev = ClickRestartSameGoal)
            \<and> current_week st' = 0 \<and> next_week_config_pending st')
         \<or> ev = ClickNextWeekConfig"
proof -
  obtain res st1 where c: "check_all_records_saved_for_week w wp (records st) st = (res, st1)"
    by (cases "check_all_records_saved_for_week w wp (records st) st")
  show ?thesis
    using assms unfolding week_footer_def c Let_def
    by (auto split: sum.splits prod.splits option.splits event.splits if_splits)
qed

lemma main_Rerun_page:
  assumes "\<forall>inp. ev \<noteq> SubmitProfile inp" "\<forall>t r. ev \<noteq> SubmitMaxTest t r"
    and "main cl today ev st = (Rerun, st')"
  shows "page_training_week cl ev st = (Rerun, st')"
proof -
  have i: "page_initial_settings cl today ev st = st"
    using assms(1) by (cases ev) (simp_all add: page_initial_settings_def)
  have p: "\<And>st2. page_progress_and_roadmap today ev st2 = (Returned, st2)"
    using assms(2) by (cases ev) (simp_all add: page_progress_and_roadmap_def split: option.splits)
  obtain out st2 where t: "page_training_week cl ev st = (out, st2)"
    by (cases "page_training_week cl ev st")
  show ?thesis using assms(3) by (cases out) (simp_all add: main_def i p t)
qed

lemma page_training_week_restart:
  assumes "(\<exists>g. ev = ClickRestartNewGoal g) \<or> ev = ClickRestartSameGoal"
    and "page_training_week cl ev st = (Rerun, st')"
  shows "current_week st' = 0 \<and> next_week_config_pending st'
    \<and> training_logs st' = training_logs st \<and> records st' = records st"
proof -
  have "\<exists>wp. week_footer ev (current_week st) wp st = (Rerun, st')"
    using assms unfolding page_training_week_def Let_def
    by (auto simp: days_loop_other split: option.splits if_splits)
  then obtain wp where w: "week_footer ev (current_week st) wp st = (Rerun, st')" by blast
  have "current_week st' = 0 \<and> next_week_config_pending st'"
    using week_footer_Rerun [OF w] assms(1) by auto
  moreover have "training_logs st' = training_logs st \<and> records st' = records st"
    using week_footer_frame(1,4) [of ev "current_week st" wp st] w by simp
  ultimately show ?thesis by simp
qed

lemma page_training_week_restart_config:
  assumes "current_week st = 0"
    and "page_training_week cl (SubmitNextWeekConfig f wds) st = (Rerun, st')"
  shows "records st' = Map.empty \<and> current_week st' = 1 \<and> training_logs st' = training_logs st"
proof -
  have "(\<exists>wp. week_footer (SubmitNextWeekConfig f wds) (current_week st) wp st = (Rerun, st'))
      \<or> (\<exists>c info. next_week_config_submit c info f wds st = (Rerun, st'))"
    using assms(2) unfolding page_training_week_def Let_def
    by (auto simp: days_loop_other split: option.splits if_splits)
  then show ?thesis
  proof (elim disjE exE)
    fix wp assume "week_footer (SubmitNextWeekConfig f wds) (current_week st) wp st = (Rerun, st')"
    then show ?thesis using week_footer_Rerun by blast
  next
    fix c info assume "next_week_config_submit c info f wds st = (Rerun, st')"
    then show ?thesis using assms(1)
      by (auto simp: next_week_config_submit_def Let_def split: if_splits option.splits list.splits)
  qed
qed






lemmas run_defs = main_def page_initial_settings_def page_training_week_def
  page_progress_and_roadmap_def week_footer_def check_all_records_saved_for_week_def
  check_all_records_saved_for_day_def generate_ai_daily_review_def finish_day_def
  next_week_config_submit_def generate_ai_week_plan_def py_index_def flag_get_def reviewed_def
  ex_reviewed_def ex_logged_def ex_week3_def ex_client_def ex_client_ok_def



text \<open>
  Claim C8, as the code has it. Every run of the application leaves the training log it started with as a prefix
  of the training log it ends with: entries are only appended. A run in which the goal-achieved
  or goal-missed acknowledgement takes effect leaves the training log and the records as they
  were and sets the week number to the restart value 0 with the next-week form pending; the
  run of that form that starts the new cycle empties the records, sets the week number to 1
  and leaves the training log as it was.
\<close>

theorem training_logs_append_only:
  "prefix (training_logs st) (training_logs (snd (main cl today ev st)))
   \<and> (((\<exists>g. ev = ClickRestartNewGoal g) \<or> ev = ClickRestartSameGoal) \<longrightarrow>
        main cl today ev st = (Rerun, st') \<longrightarrow>
          current_week st' = 0 \<and> next_week_config_pending st'
          \<and> training_logs st' = training_logs st \<and> records st' = records st)
   \<and> (current_week st = 0 \<longrightarrow>
        main cl today (SubmitNextWeekConfig f wds) st = (Rerun, st') \<longrightarrow>
          records st' = Map.empty \<and> current_week st' = 1
          \<and> training_logs st' = training_logs st)"
proof -
  have a: "prefix (training_logs st) (training_logs (snd (main cl today ev st)))"
    by (rule main_logs)
  {
    assume e: "(\<exists>g. ev = ClickRestartNewGoal g) \<or> ev = ClickRestartSameGoal"
      and m: "main cl today ev st = (Rerun, st')"
    have "page_training_week cl ev st = (Rerun, st')"
      using e m by (intro main_Rerun_page [of ev cl today st st']) auto
    then have "current_week st' = 0 \<and> next_week_config_pending st'
        \<and> training_logs st' = training_logs st \<and> records st' = records st"
      using page_training_week_restart [OF e] by simp
  }
  note b = this
  {
    assume c: "current_week st = 0"
      and m: "main cl today (SubmitNextWeekConfig f wds) st = (Rerun, st')"
    have "page_training_week cl (SubmitNextWeekConfig f wds) st = (Rerun, st')"
      using m by (intro main_Rerun_page [of _ cl today st st']) auto
    then have "records st' = Map.empty \<and> current_week st' = 1
        \<and> training_logs st' = training_logs st"
      using page_training_week_restart_config [OF c] by simp
  }
  note c = this
  show ?thesis using a b c by blast
qed

text \<open>
  Claim C8 as the specification states it (the acknowledgement clears the records of the
  cycle) fails: after the goal-achieved acknowledgement on the reviewed example the record of
  the bench press of week 4 is still stored, while the week number is the restart value 0.
\<close>

theorem restart_keeps_records:
  "main (Some ex_client) 0 (ClickRestartNewGoal 105) ex_logged = (Rerun, ex_restart)
   \<and> current_week ex_restart = 0
   \<and> lookup_record (records ex_restart) 4 day_mon ''Bench Press'' =
       Some \<lparr>rec_weight = 102, rec_reps = 1, rec_sets = 1, rec_note = ''felt strong'',
             rec_is_max = True\<rparr>"
  by (simp add: ex_restart_def run_defs ex_defs view_defs)

text \<open>
  The statement of C8 on the example: after week 4 the acknowledgement keeps the records and
  the log entry of the profile page, and the restart of the cycle empties the records and
  keeps the log entry.
\<close>

theorem training_logs_append_only_witness:
  "main (Some ex_client) 0 (ClickRestartNewGoal 105) ex_logged = (Rerun, ex_restart)
   \<and> training_logs ex_logged = [\<lparr>log_date = 0, log_current_1rm = 90, log_note = note_initial\<rparr>]
   \<and> training_logs ex_restart = training_logs ex_logged
   \<and> records ex_restart = records ex_logged
   \<and> current_week ex_restart = 0
   \<and> fst (main (Some ex_client_ok) 0 (SubmitNextWeekConfig 1 [day_mon]) ex_restart) = Rerun
   \<and> records (snd (main (Some ex_client_ok) 0 (SubmitNextWeekConfig 1 [day_mon]) ex_restart)) =
       Map.empty
   \<and> training_logs (snd (main (Some ex_client_ok) 0 (SubmitNextWeekConfig 1 [day_mon]) ex_restart)) =
       training_logs ex_logged"
proof -
  have 1: "main (Some ex_client) 0 (ClickRestartNewGoal 105) ex_logged = (Rerun, ex_restart)"
    by (simp add: ex_restart_def run_defs ex_defs view_defs)
  have 2: "training_logs ex_logged = [\<lparr>log_date = 0, log_current_1rm = 90, log_note = note_initial\<rparr>]"
    by (simp add: ex_logged_def)
  have 3: "fst (main (Some ex_client_ok) 0 (SubmitNextWeekConfig 1 [day_mon]) ex_restart) = Rerun"
    by (simp add: ex_restart_def run_defs ex_defs view_defs)
  show ?thesis
    using training_logs_append_only
        [where st = ex_logged and cl = "Some ex_client" and today = 0
           and ev = "ClickRestartNewGoal 105" and st' = ex_restart]
      training_logs_append_only
        [where st = ex_restart and cl = "Some ex_client_ok" and today = 0
           and f = 1 and wds = "[day_mon]"
           and st' = "snd (main (Some ex_client_ok) 0 (SubmitNextWeekConfig 1 [day_mon]) ex_restart)"]
      1 2 3
    by (simp add: prod_eq_iff)
qed

end
